theory Spec2Isabelle
  imports Complex_Main "HOL-Library.Word"
begin

unbundle bit_operations_syntax

section \<open>CRC16-MODBUS\<close>

text \<open>
  \<^verbatim>\<open>crc16_modbus(data, order='little')\<close> of \<^verbatim>\<open>crc_calc.py\<close>. Python integers are
  unbounded, so the register is an \<open>int\<close>; \<^verbatim>\<open>>>\<close> is \<open>drop_bit\<close>, \<^verbatim>\<open>&\<close> is \<open>AND\<close>
  and \<^verbatim>\<open>^\<close> is \<open>XOR\<close>. The condition \<^verbatim>\<open>if crc & 0x0001\<close> is true when the value is
  not zero.
\<close>

definition crc_shift :: "int \<Rightarrow> int" where
  "crc_shift crc =
     (if crc AND 0x0001 \<noteq> 0 then drop_bit 1 crc XOR 0xA001 else drop_bit 1 crc)"

text \<open>The inner loop \<^verbatim>\<open>for _ in range(8)\<close>.\<close>

fun crc_bits :: "nat \<Rightarrow> int \<Rightarrow> int" where
  "crc_bits 0 crc = crc"
| "crc_bits (Suc n) crc = crc_bits n (crc_shift crc)"

text \<open>The outer loop \<^verbatim>\<open>for byte in data\<close>, with \<^verbatim>\<open>crc ^= byte & 0xFF\<close> first.\<close>

fun crc_bytes :: "int \<Rightarrow> int list \<Rightarrow> int" where
  "crc_bytes crc [] = crc"
| "crc_bytes crc (byte # data) = crc_bytes (crc_bits 8 (crc XOR (byte AND 0xFF))) data"

definition crc16_modbus :: "int list \<Rightarrow> string \<Rightarrow> int list" where
  "crc16_modbus data order =
     (let crc = crc_bytes 0xFFFF data AND 0xFFFF
      in if order = ''little'' then [crc AND 0x00FF, drop_bit 8 crc]
         else [drop_bit 8 crc, crc AND 0x00FF])"

subsection \<open>The reference algorithm, on a 16-bit register\<close>

text \<open>
  The specification's wording: a 16-bit register initialised to \<open>0xFFFF\<close>; each byte is
  XORed into the low 8 bits; then 8 times the register is shifted right by one and XORed
  with \<open>0xA001\<close> when the bit shifted out was set.
\<close>

definition ref_shift :: "16 word \<Rightarrow> 16 word" where
  "ref_shift r = (if bit r 0 then drop_bit 1 r XOR 0xA001 else drop_bit 1 r)"

definition ref_byte :: "16 word \<Rightarrow> 8 word \<Rightarrow> 16 word" where
  "ref_byte r b = (ref_shift ^^ 8) (r XOR ucast b)"

definition ref_crc16 :: "8 word list \<Rightarrow> 16 word" where
  "ref_crc16 bs = foldl ref_byte 0xFFFF bs"

section \<open>Text\<close>

text \<open>
  Cell texts, cell names and formulas are Python strings. They are modelled as lists of
  ASCII characters: the white space, the digits and the letters below are those of the
  ASCII range, and a character outside it is left alone by every operation.

  \<^verbatim>\<open>str.strip()\<close> removes the white space of both ends; in the ASCII range Python
  counts the characters 9 to 13, 28 to 31 and 32 as white space.
\<close>

definition is_space :: "char \<Rightarrow> bool" where
  "is_space c = (c \<in> set [CHR 0x09, CHR 0x0A, CHR 0x0B, CHR 0x0C, CHR 0x0D,
                           CHR 0x1C, CHR 0x1D, CHR 0x1E, CHR 0x1F, CHR 0x20])"

definition py_strip :: "string \<Rightarrow> string" where
  "py_strip s = rev (dropWhile is_space (rev (dropWhile is_space s)))"

text \<open>\<^verbatim>\<open>str.upper()\<close>.\<close>

definition upper_char :: "char \<Rightarrow> char" where
  "upper_char c =
     (case map_of (zip ''abcdefghijklmnopqrstuvwxyz'' ''ABCDEFGHIJKLMNOPQRSTUVWXYZ'') c of
        Some u \<Rightarrow> u
      | None \<Rightarrow> c)"

definition py_upper :: "string \<Rightarrow> string" where
  "py_upper s = map upper_char s"

definition digit_value :: "char \<Rightarrow> int option" where
  "digit_value c = map_of (zip ''0123456789'' [0, 1, 2, 3, 4, 5, 6, 7, 8, 9]) c"

definition is_digit :: "char \<Rightarrow> bool" where
  "is_digit c = (digit_value c \<noteq> None)"

definition hex_digit_value :: "char \<Rightarrow> int option" where
  "hex_digit_value c =
     map_of (zip ''0123456789ABCDEFabcdef''
               [0, 1, 2, 3, 4, 5, 6, 7, 8, 9, 10, 11, 12, 13, 14, 15, 10, 11, 12, 13, 14, 15]) c"

definition is_hex_digit :: "char \<Rightarrow> bool" where
  "is_hex_digit c = (hex_digit_value c \<noteq> None)"

text \<open>\<^verbatim>\<open>str.isdigit()\<close>: a non-empty string of digits.\<close>

definition py_isdigit :: "string \<Rightarrow> bool" where
  "py_isdigit s = (s \<noteq> [] \<and> list_all is_digit s)"

text \<open>
  \<^verbatim>\<open>int(s)\<close> on a string of digits, and the value of a string of hexadecimal digits.
  Python integers are unbounded; the interpreter's configurable limit on the number of
  digits of a decimal conversion is not part of the model.
\<close>

definition py_int10 :: "string \<Rightarrow> int" where
  "py_int10 s =
     foldl (\<lambda>acc c. 10 * acc + (case digit_value c of Some v \<Rightarrow> v | None \<Rightarrow> 0)) 0 s"

definition hex_value :: "string \<Rightarrow> int" where
  "hex_value s =
     foldl (\<lambda>acc c. 16 * acc + (case hex_digit_value c of Some v \<Rightarrow> v | None \<Rightarrow> 0)) 0 s"

text \<open>The decimal and the upper-case hexadecimal digits of a natural number.\<close>

fun dec_digits :: "nat \<Rightarrow> string" where
  "dec_digits n =
     (if n < 10 then [''0123456789'' ! n]
      else dec_digits (n div 10) @ [''0123456789'' ! (n mod 10)])"

fun hex_digits :: "nat \<Rightarrow> string" where
  "hex_digits n =
     (if n < 16 then [''0123456789ABCDEF'' ! n]
      else hex_digits (n div 16) @ [''0123456789ABCDEF'' ! (n mod 16)])"

declare dec_digits.simps [simp del] hex_digits.simps [simp del]

text \<open>\<^verbatim>\<open>str(i)\<close>, and the format specifications \<^verbatim>\<open>{n:02d}\<close> and \<^verbatim>\<open>{i:04X}\<close>.\<close>

definition py_str :: "int \<Rightarrow> string" where
  "py_str i = (if i < 0 then CHR ''-'' # dec_digits (nat (- i)) else dec_digits (nat i))"

definition fmt_02d :: "nat \<Rightarrow> string" where
  "fmt_02d n = replicate (2 - length (dec_digits n)) CHR ''0'' @ dec_digits n"

definition fmt_04X :: "int \<Rightarrow> string" where
  "fmt_04X i =
     (if i < 0
      then CHR ''-'' # replicate (3 - length (hex_digits (nat (- i)))) CHR ''0''
             @ hex_digits (nat (- i))
      else replicate (4 - length (hex_digits (nat i))) CHR ''0'' @ hex_digits (nat i))"

section \<open>Expressions\<close>

text \<open>
  The formulas are evaluated by Python's \<^verbatim>\<open>eval\<close> with an empty namespace. What the
  program does with the outcome depends on three things only: whether \<^verbatim>\<open>eval\<close> raised,
  whether the value is a \<^verbatim>\<open>float\<close>, and which integer it is or rounds to. Every exception
  that an expression can raise is a subclass of \<^verbatim>\<open>Exception\<close>.
\<close>

datatype py_exception =
  SyntaxError | ZeroDivisionError | ValueError | TypeError | OverflowError | OtherException

text \<open>
  A finite float is a rational number; integers and booleans are \<open>PInt\<close>; every other
  value (a string, a tuple, a complex number) is \<open>POther\<close>.
\<close>

datatype py_float = Finite rat | Infinite | NaN

datatype py_value = PInt int | PFloat py_float | POther

type_synonym py_result = "py_exception + py_value"

text \<open>\<^verbatim>\<open>round(x)\<close> on a float: to the nearest integer, a tie to the even one.\<close>

definition py_round :: "rat \<Rightarrow> int" where
  "py_round q =
     (let f = \<lfloor>q\<rfloor>; r = q - of_int f
      in if r < 1 / 2 then f else if 1 / 2 < r then f + 1 else if even f then f else f + 1)"

text \<open>
  \<^verbatim>\<open>int(round(result))\<close>: \<^verbatim>\<open>round\<close> raises \<^verbatim>\<open>OverflowError\<close> on an infinity,
  \<^verbatim>\<open>ValueError\<close> on a NaN and \<^verbatim>\<open>TypeError\<close> on a value that is not a number.
\<close>

fun int_round :: "py_value \<Rightarrow> py_exception + int" where
  "int_round (PInt i) = Inr i"
| "int_round (PFloat (Finite q)) = Inr (py_round q)"
| "int_round (PFloat Infinite) = Inl OverflowError"
| "int_round (PFloat NaN) = Inl ValueError"
| "int_round POther = Inl TypeError"

subsection \<open>The arithmetic fragment\<close>

text \<open>
  The fragment of Python's expressions that is evaluated here: decimal integer literals,
  hexadecimal literals with the prefix \<^verbatim>\<open>0x\<close> or \<^verbatim>\<open>0X\<close>, the operators \<^verbatim>\<open>+ - * /\<close>
  (binary, and \<^verbatim>\<open>+ -\<close> unary), parentheses, spaces and tabs. An expression with any other
  character, with \<^verbatim>\<open>**\<close> or \<^verbatim>\<open>//\<close>, or with a literal that is not of these two forms
  is outside the fragment.
\<close>

datatype token = TInt int | TPlus | TMinus | TStar | TSlash | TLParen | TRParen

definition is_word_char :: "char \<Rightarrow> bool" where
  "is_word_char c =
     (c \<in> set ''0123456789abcdefghijklmnopqrstuvwxyzABCDEFGHIJKLMNOPQRSTUVWXYZ_.'')"

text \<open>
  A literal is read up to the first character that is not a letter, a digit, an underscore
  or a dot. A decimal literal has no leading zero unless it is a run of zeros, and at most
  4300 digits (longer ones are left to the interpreter's settings).
\<close>

definition literal_value :: "string \<Rightarrow> int option" where
  "literal_value w =
     (if py_isdigit w then
        (if length w \<le> 4300
            \<and> (length w = 1 \<or> hd w \<noteq> CHR ''0'' \<or> list_all (\<lambda>c. c = CHR ''0'') w)
         then Some (py_int10 w) else None)
      else
        (case w of
           z # x # hs \<Rightarrow>
             if z = CHR ''0'' \<and> (x = CHR ''X'' \<or> x = CHR ''x'') \<and> hs \<noteq> []
                \<and> list_all is_hex_digit hs
             then Some (hex_value hs) else None
         | _ \<Rightarrow> None))"

text \<open>\<open>None\<close>: the text is outside the fragment.\<close>

function tokenize :: "string \<Rightarrow> token list option" where
  "tokenize [] = Some []"
| "tokenize (c # cs) =
     (if c = CHR '' '' \<or> c = CHR 0x09 then tokenize cs
      else if is_digit c then
        (case literal_value (c # takeWhile is_word_char cs) of
           None \<Rightarrow> None
         | Some v \<Rightarrow> map_option ((#) (TInt v)) (tokenize (dropWhile is_word_char cs)))
      else if c = CHR ''+'' then map_option ((#) TPlus) (tokenize cs)
      else if c = CHR ''-'' then map_option ((#) TMinus) (tokenize cs)
      else if c = CHR ''*'' then
        (case cs of
           [] \<Rightarrow> Some [TStar]
         | n # _ \<Rightarrow> if n = CHR ''*'' then None else map_option ((#) TStar) (tokenize cs))
      else if c = CHR ''/'' then
        (case cs of
           [] \<Rightarrow> Some [TSlash]
         | n # _ \<Rightarrow> if n = CHR ''/'' then None else map_option ((#) TSlash) (tokenize cs))
      else if c = CHR ''('' then map_option ((#) TLParen) (tokenize cs)
      else if c = CHR '')'' then map_option ((#) TRParen) (tokenize cs)
      else None)"
  by pat_completeness auto
termination
  by (relation "measure length") (auto simp: length_dropWhile_le less_Suc_eq_le)


text \<open>Unbalanced parentheses are a \<^verbatim>\<open>SyntaxError\<close> whatever stands between them.\<close>

fun balanced :: "nat \<Rightarrow> token list \<Rightarrow> bool" where
  "balanced n [] = (n = 0)"
| "balanced n (TLParen # ts) = balanced (Suc n) ts"
| "balanced n (TRParen # ts) = (case n of 0 \<Rightarrow> False | Suc m \<Rightarrow> balanced m ts)"
| "balanced n (_ # ts) = balanced n ts"

datatype binop = Add | Sub | Mul | Div

datatype expr = Num int | UPlus expr | UMinus expr | BinOp binop expr expr

text \<open>
  Python's grammar on these tokens, by recursive descent:
  \<^verbatim>\<open>sum: sum ('+'|'-') term | term\<close>, \<^verbatim>\<open>term: term ('*'|'/') factor | factor\<close>,
  \<^verbatim>\<open>factor: ('+'|'-') factor | atom\<close>, \<^verbatim>\<open>atom: NUMBER | '(' sum ')'\<close>.
  The first argument bounds the depth of the recursion; \<open>None\<close> is returned when it is
  used up or when the tokens do not follow this grammar.
\<close>

fun parse_sum :: "nat \<Rightarrow> token list \<Rightarrow> (expr \<times> token list) option"
  and parse_sum_rest :: "nat \<Rightarrow> expr \<Rightarrow> token list \<Rightarrow> (expr \<times> token list) option"
  and parse_term :: "nat \<Rightarrow> token list \<Rightarrow> (expr \<times> token list) option"
  and parse_term_rest :: "nat \<Rightarrow> expr \<Rightarrow> token list \<Rightarrow> (expr \<times> token list) option"
  and parse_factor :: "nat \<Rightarrow> token list \<Rightarrow> (expr \<times> token list) option"
where
  "parse_sum fuel ts =
     (case fuel of
        0 \<Rightarrow> None
      | Suc n \<Rightarrow>
          (case parse_term n ts of None \<Rightarrow> None | Some (e, ts') \<Rightarrow> parse_sum_rest n e ts'))"
| "parse_sum_rest fuel lhs ts =
     (case fuel of
        0 \<Rightarrow> None
      | Suc n \<Rightarrow>
          (case ts of
             TPlus # ts1 \<Rightarrow>
               (case parse_term n ts1 of
                  None \<Rightarrow> None
                | Some (e, ts') \<Rightarrow> parse_sum_rest n (BinOp Add lhs e) ts')
           | TMinus # ts1 \<Rightarrow>
               (case parse_term n ts1 of
                  None \<Rightarrow> None
                | Some (e, ts') \<Rightarrow> parse_sum_rest n (BinOp Sub lhs e) ts')
           | _ \<Rightarrow> Some (lhs, ts)))"
| "parse_term fuel ts =
     (case fuel of
        0 \<Rightarrow> None
      | Suc n \<Rightarrow>
          (case parse_factor n ts of None \<Rightarrow> None | Some (e, ts') \<Rightarrow> parse_term_rest n e ts'))"
| "parse_term_rest fuel lhs ts =
     (case fuel of
        0 \<Rightarrow> None
      | Suc n \<Rightarrow>
          (case ts of
             TStar # ts1 \<Rightarrow>
               (case parse_factor n ts1 of
                  None \<Rightarrow> None
                | Some (e, ts') \<Rightarrow> parse_term_rest n (BinOp Mul lhs e) ts')
           | TSlash # ts1 \<Rightarrow>
               (case parse_factor n ts1 of
                  None \<Rightarrow> None
                | Some (e, ts') \<Rightarrow> parse_term_rest n (BinOp Div lhs e) ts')
           | _ \<Rightarrow> Some (lhs, ts)))"
| "parse_factor fuel ts =
     (case fuel of
        0 \<Rightarrow> None
      | Suc n \<Rightarrow>
          (case ts of
             TInt v # ts1 \<Rightarrow> Some (Num v, ts1)
           | TPlus # ts1 \<Rightarrow>
               (case parse_factor n ts1 of None \<Rightarrow> None | Some (e, ts') \<Rightarrow> Some (UPlus e, ts'))
           | TMinus # ts1 \<Rightarrow>
               (case parse_factor n ts1 of None \<Rightarrow> None | Some (e, ts') \<Rightarrow> Some (UMinus e, ts'))
           | TLParen # ts1 \<Rightarrow>
               (case parse_sum n ts1 of
                  Some (e, TRParen # ts') \<Rightarrow> Some (e, ts')
                | _ \<Rightarrow> None)
           | _ \<Rightarrow> None))"

declare parse_sum.simps [simp del] parse_sum_rest.simps [simp del] parse_term.simps [simp del]
  parse_term_rest.simps [simp del] parse_factor.simps [simp del]


text \<open>
  A token list that does not parse may still be valid Python (a call \<^verbatim>\<open>1(2)\<close>, an empty
  tuple), so it is outside the fragment.
\<close>

definition parse_expr :: "token list \<Rightarrow> expr option" where
  "parse_expr ts =
     (case parse_sum (3 * length ts + 3) ts of
        Some (e, []) \<Rightarrow> Some e
      | _ \<Rightarrow> None)"

text \<open>
  The value of a parsed expression: \<open>Some (Inr v)\<close> an integer, \<open>Some (Inl e)\<close> an
  exception, \<open>None\<close> outside the fragment. A division by the integer zero raises
  \<^verbatim>\<open>ZeroDivisionError\<close>; any other division yields a float and leaves the fragment.
  The left operand is evaluated first, as Python does.
\<close>

fun eval_expr :: "expr \<Rightarrow> (py_exception + int) option" where
  "eval_expr (Num v) = Some (Inr v)"
| "eval_expr (UPlus e) = eval_expr e"
| "eval_expr (UMinus e) =
     (case eval_expr e of Some (Inr v) \<Rightarrow> Some (Inr (- v)) | other \<Rightarrow> other)"
| "eval_expr (BinOp op l r) =
     (case eval_expr l of
        Some (Inr a) \<Rightarrow>
          (case eval_expr r of
             Some (Inr b) \<Rightarrow>
               (case op of
                  Add \<Rightarrow> Some (Inr (a + b))
                | Sub \<Rightarrow> Some (Inr (a - b))
                | Mul \<Rightarrow> Some (Inr (a * b))
                | Div \<Rightarrow> if b = 0 then Some (Inl ZeroDivisionError) else None)
           | other \<Rightarrow> other)
      | other \<Rightarrow> other)"

text \<open>Expressions of more than 100 tokens are left outside the fragment.\<close>

definition arith_eval :: "string \<Rightarrow> (py_exception + int) option" where
  "arith_eval s =
     (case tokenize s of
        None \<Rightarrow> None
      | Some ts \<Rightarrow>
          if 100 < length ts then None
          else if \<not> balanced 0 ts then Some (Inl SyntaxError)
          else (case parse_expr ts of None \<Rightarrow> None | Some e \<Rightarrow> eval_expr e))"

text \<open>
  \<^verbatim>\<open>eval(text, ...)\<close>. The parameter \<open>ev\<close> is the interpreter's \<^verbatim>\<open>eval\<close> on the texts
  outside the fragment; every statement below holds for any \<open>ev\<close>.
\<close>

definition py_eval :: "(string \<Rightarrow> py_result) \<Rightarrow> string \<Rightarrow> py_result" where
  "py_eval ev s =
     (case arith_eval s of
        Some (Inl e) \<Rightarrow> Inl e
      | Some (Inr v) \<Rightarrow> Inr (PInt v)
      | None \<Rightarrow> ev s)"

section \<open>Cells and formulas\<close>

type_synonym var_values = "string \<rightharpoonup> int"
type_synonym raw_texts = "string \<rightharpoonup> string"

text \<open>\<^verbatim>\<open>d.get(k, default)\<close>.\<close>

definition dict_get :: "('k \<rightharpoonup> 'v) \<Rightarrow> 'k \<Rightarrow> 'v \<Rightarrow> 'v" where
  "dict_get d k dflt = (case d k of None \<Rightarrow> dflt | Some v \<Rightarrow> v)"

definition get_var_value :: "string \<Rightarrow> var_values \<Rightarrow> int" where
  "get_var_value var_name var_value_dict =
     dict_get var_value_dict (py_upper (py_strip var_name)) 0 AND 0xFF"

text \<open>
  \<^verbatim>\<open>int(text, 16)\<close>. The program calls it on texts of two characters that hold neither
  white space nor a sign (a stripped cell text without operators, or two digits of a
  formatted number); on these Python accepts exactly the hexadecimal digits and raises
  \<^verbatim>\<open>ValueError\<close> otherwise.
\<close>

definition py_int16 :: "string \<Rightarrow> py_exception + int" where
  "py_int16 s =
     (if s \<noteq> [] \<and> list_all is_hex_digit s then Inr (hex_value s) else Inl ValueError)"

text \<open>
  \<^verbatim>\<open>re.sub(r'(?<!0X)([AB]\d{4})', var_replace, text)\<close>: from left to right, every
  \<^verbatim>\<open>A\<close> or \<^verbatim>\<open>B\<close> followed by four digits and not preceded by \<^verbatim>\<open>0X\<close> is replaced by the
  decimal value of that cell; the search goes on after the match. \<open>p2\<close> and \<open>p1\<close> are the
  two characters before the current position, if any.
\<close>

fun var_sub :: "var_values \<Rightarrow> char option \<Rightarrow> char option \<Rightarrow> string \<Rightarrow> string" where
  "var_sub d p2 p1 (c # d1 # d2 # d3 # d4 # rest) =
     (if (c = CHR ''A'' \<or> c = CHR ''B'') \<and> is_digit d1 \<and> is_digit d2 \<and> is_digit d3 \<and> is_digit d4
         \<and> \<not> (p2 = Some CHR ''0'' \<and> p1 = Some CHR ''X'')
      then py_str (get_var_value [c, d1, d2, d3, d4] d) @ var_sub d (Some d3) (Some d4) rest
      else c # var_sub d p1 (Some c) (d1 # d2 # d3 # d4 # rest))"
| "var_sub d p2 p1 (c # cs) = c # var_sub d p1 (Some c) cs"
| "var_sub d p2 p1 [] = []"

definition replace_vars :: "var_values \<Rightarrow> string \<Rightarrow> string" where
  "replace_vars d text = var_sub d None None text"

text \<open>
  \<^verbatim>\<open>parse_high_low_hex(match, var_value_dict)\<close>, with the two groups of the match as
  arguments. The whole body stands in \<^verbatim>\<open>try: ... except Exception: return "0"\<close>.
\<close>

definition parse_high_low_hex :: "(string \<Rightarrow> py_result) \<Rightarrow> char \<Rightarrow> string \<Rightarrow> var_values \<Rightarrow> string" where
  "parse_high_low_hex ev symbol expr var_value_dict =
     (case
        (case py_eval ev (replace_vars var_value_dict (py_upper expr)) of
           Inl e \<Rightarrow> Inl e
         | Inr result \<Rightarrow>
             (case int_round result of
                Inl e \<Rightarrow> Inl e
              | Inr result_int \<Rightarrow>
                  (let hex_4_str = fmt_04X (result_int AND 0xFFFF)
                   in if symbol = CHR ''#''
                      then (case py_int16 (take 2 hex_4_str) of Inl e \<Rightarrow> Inl e | Inr v \<Rightarrow> Inr (py_str v))
                      else (case py_int16 (drop 2 hex_4_str) of Inl e \<Rightarrow> Inl e | Inr v \<Rightarrow> Inr (py_str v)))))
      of Inl e \<Rightarrow> ''0'' | Inr s \<Rightarrow> s)"

text \<open>
  \<^verbatim>\<open>re.sub(r'([#$])\(([^)]+)\)', ..., formula_text)\<close>: a match is \<^verbatim>\<open>#\<close> or \<^verbatim>\<open>$\<close>, an
  opening parenthesis, one or more characters other than a closing parenthesis, and a
  closing parenthesis; \<open>f\<close> computes the replacement from the two groups.
\<close>

function hl_sub :: "(char \<Rightarrow> string \<Rightarrow> string) \<Rightarrow> string \<Rightarrow> string" where
  "hl_sub f [] = []"
| "hl_sub f [c] = [c]"
| "hl_sub f (c # p # rest) =
     (if (c = CHR ''#'' \<or> c = CHR ''$'') \<and> p = CHR ''(''
         \<and> takeWhile (\<lambda>x. x \<noteq> CHR '')'') rest \<noteq> [] \<and> dropWhile (\<lambda>x. x \<noteq> CHR '')'') rest \<noteq> []
      then f c (takeWhile (\<lambda>x. x \<noteq> CHR '')'') rest) @ hl_sub f (tl (dropWhile (\<lambda>x. x \<noteq> CHR '')'') rest))
      else c # hl_sub f (p # rest))"
  by pat_completeness auto
termination
  by (relation "measure (\<lambda>(f, s). length s)")
     (auto simp: less_Suc_eq_le intro: le_trans [OF _ length_dropWhile_le] le_trans [OF diff_le_self length_dropWhile_le] le_SucI)

text \<open>
  \<^verbatim>\<open>parse_b_formula(formula_text, var_value_dict)\<close>; the body stands in
  \<^verbatim>\<open>try: ... except Exception: return 0\<close>. On a value that is neither a float nor an
  integer, \<^verbatim>\<open>result & 0xFF\<close> raises \<^verbatim>\<open>TypeError\<close>.
\<close>

definition parse_b_formula :: "(string \<Rightarrow> py_result) \<Rightarrow> string \<Rightarrow> var_values \<Rightarrow> int" where
  "parse_b_formula ev formula_text var_value_dict =
     (case
        (let text1 = hl_sub (\<lambda>symbol expr. parse_high_low_hex ev symbol expr var_value_dict) formula_text;
             text2 = replace_vars var_value_dict (py_upper text1)
         in case py_eval ev text2 of
              Inl e \<Rightarrow> Inl e
            | Inr (PFloat x) \<Rightarrow>
                (case int_round (PFloat x) of Inl e \<Rightarrow> Inl e | Inr i \<Rightarrow> Inr (i AND 0xFF))
            | Inr (PInt i) \<Rightarrow> Inr (i AND 0xFF)
            | Inr POther \<Rightarrow> Inl TypeError)
      of Inl e \<Rightarrow> 0 | Inr v \<Rightarrow> v)"

text \<open>\<^verbatim>\<open>any(op in input_text for op in '+-*/#$')\<close>.\<close>

definition has_operator :: "string \<Rightarrow> bool" where
  "has_operator text = list_ex (\<lambda>op. op \<in> set text) ''+-*/#$''"

text \<open>
  \<^verbatim>\<open>parse_b_input(input_text, var_value_dict)\<close>. Only \<^verbatim>\<open>ValueError\<close> is caught around
  \<^verbatim>\<open>int(input_text, 16)\<close>; any other exception would reach the caller.
\<close>

definition parse_b_input :: "(string \<Rightarrow> py_result) \<Rightarrow> string \<Rightarrow> var_values \<Rightarrow> py_exception + int" where
  "parse_b_input ev input_text var_value_dict =
     (let input_text = py_strip input_text
      in if input_text = [] then Inr 0
         else if has_operator input_text then Inr (parse_b_formula ev input_text var_value_dict)
         else if length input_text = 2 then
           (case py_int16 input_text of
              Inr v \<Rightarrow> Inr (v AND 0xFF)
            | Inl ValueError \<Rightarrow> Inr 0
            | Inl e \<Rightarrow> Inl e)
         else Inr (get_var_value input_text var_value_dict))"



section \<open>The grid\<close>

text \<open>\<^verbatim>\<open>generate_var_name(prefix, row_num, col)\<close>: \<^verbatim>\<open>f"{prefix}{row_num:02d}{col:02d}"\<close>.\<close>

definition generate_var_name :: "string \<Rightarrow> nat \<Rightarrow> nat \<Rightarrow> string" where
  "generate_var_name prefix row_num col = prefix @ fmt_02d row_num @ fmt_02d col"

text \<open>
  The fields of \<^verbatim>\<open>CRC16MODBUSCalculator\<close> that the resolution reads and writes. Of
  \<^verbatim>\<open>row_widgets\<close>, a dictionary keyed by row number, only the keys matter here, in their
  order of insertion.
\<close>

record calc_state =
  total_rows :: nat
  dec_col_count :: nat
  hex_col_count :: nat
  raw_text_dict :: raw_texts
  var_value_dict :: var_values
  row_widgets :: "nat list"

text \<open>
  The names visited by \<^verbatim>\<open>for row_num in self.row_widgets: for col in range(1, cols + 1)\<close>,
  in that order.
\<close>

definition cell_names :: "string \<Rightarrow> nat list \<Rightarrow> nat \<Rightarrow> string list" where
  "cell_names prefix rows cols =
     concat (map (\<lambda>row_num. map (\<lambda>col. generate_var_name prefix row_num col) [1..<cols + 1]) rows)"

text \<open>\<^verbatim>\<open>int(raw_text) if raw_text.isdigit() else 0\<close>.\<close>

definition a_value :: "string \<Rightarrow> int" where
  "a_value raw_text = (if py_isdigit raw_text then py_int10 raw_text else 0)"

text \<open>The first step of \<^verbatim>\<open>update_all_var_values\<close>: the A cells.\<close>

fun a_cells :: "raw_texts \<Rightarrow> string list \<Rightarrow> var_values \<Rightarrow> var_values" where
  "a_cells raw [] d = d"
| "a_cells raw (var_name # rest) d =
     a_cells raw rest (d(var_name \<mapsto> a_value (dict_get raw var_name [])))"

definition max_attempts :: nat where
  "max_attempts = 5"

text \<open>
  The body of the inner loop of the second step, for one B cell. The state is the
  dictionary of values, which is updated in place, and the flag \<^verbatim>\<open>has_value_change\<close>.
\<close>

definition b_cell ::
  "(string \<Rightarrow> py_result) \<Rightarrow> raw_texts \<Rightarrow> string \<Rightarrow> var_values \<times> bool
     \<Rightarrow> py_exception + var_values \<times> bool" where
  "b_cell ev raw var_name st =
     (case st of (d, has_value_change) \<Rightarrow>
        (let raw_text = dict_get raw var_name [];
             old_value = dict_get d var_name 0
         in case parse_b_input ev raw_text d of
              Inl e \<Rightarrow> Inl e
            | Inr new_value \<Rightarrow>
                if new_value \<noteq> old_value then Inr (d(var_name \<mapsto> new_value), True)
                else Inr (d, has_value_change)))"

text \<open>One round over all B cells.\<close>

fun b_round ::
  "(string \<Rightarrow> py_result) \<Rightarrow> raw_texts \<Rightarrow> string list \<Rightarrow> var_values \<times> bool
     \<Rightarrow> py_exception + var_values \<times> bool" where
  "b_round ev raw [] st = Inr st"
| "b_round ev raw (var_name # rest) st =
     (case b_cell ev raw var_name st of Inl e \<Rightarrow> Inl e | Inr st' \<Rightarrow> b_round ev raw rest st')"

text \<open>
  \<^verbatim>\<open>while has_value_change and current_attempt < max_attempts\<close>; each round starts with
  the flag cleared. The result holds the loop's variables when it is left.
\<close>

function b_loop ::
  "(string \<Rightarrow> py_result) \<Rightarrow> raw_texts \<Rightarrow> string list \<Rightarrow> bool \<Rightarrow> nat \<Rightarrow> var_values
     \<Rightarrow> py_exception + bool \<times> nat \<times> var_values" where
  "b_loop ev raw names has_value_change current_attempt d =
     (if has_value_change \<and> current_attempt < max_attempts then
        (case b_round ev raw names (d, False) of
           Inl e \<Rightarrow> Inl e
         | Inr (d', changed) \<Rightarrow> b_loop ev raw names changed (current_attempt + 1) d')
      else Inr (has_value_change, current_attempt, d))"
  by pat_completeness auto
termination
  by (relation "measure (\<lambda>(ev, raw, names, hc, att, d). max_attempts - att)") auto

declare b_loop.simps [simp del]

definition update_all_var_values ::
  "(string \<Rightarrow> py_result) \<Rightarrow> calc_state \<Rightarrow> py_exception + calc_state" where
  "update_all_var_values ev s =
     (let d = a_cells (raw_text_dict s) (cell_names ''A'' (row_widgets s) (dec_col_count s))
                (var_value_dict s)
      in case b_loop ev (raw_text_dict s) (cell_names ''B'' (row_widgets s) (hex_col_count s))
                True 0 d of
           Inl e \<Rightarrow> Inl e
         | Inr (has_value_change, current_attempt, d') \<Rightarrow> Inr (s\<lparr>var_value_dict := d'\<rparr>))"

text \<open>
  \<^verbatim>\<open>calc_all_rows\<close> resolves all cells and then writes each row's CRC to its widgets;
  only the resolution changes the state modelled here.
\<close>

definition calc_all_rows ::
  "(string \<Rightarrow> py_result) \<Rightarrow> calc_state \<Rightarrow> py_exception + calc_state" where
  "calc_all_rows ev s = update_all_var_values ev s"

text \<open>\<^verbatim>\<open>k.startswith(p)\<close>.\<close>

definition starts_with :: "string \<Rightarrow> string \<Rightarrow> bool" where
  "starts_with k p = (take (length p) k = p)"

text \<open>
  \<^verbatim>\<open>remove_calc_row(row_num)\<close>: the keys of \<^verbatim>\<open>raw_text_dict\<close> that start with the row's
  prefixes are popped from both dictionaries.
\<close>

definition remove_calc_row :: "calc_state \<Rightarrow> nat \<Rightarrow> calc_state" where
  "remove_calc_row s row_num =
     (if row_num \<in> set (row_widgets s) then
        (let del_prefix_a = CHR ''A'' # fmt_02d row_num;
             del_prefix_b = CHR ''B'' # fmt_02d row_num;
             del_var = (\<lambda>k. raw_text_dict s k \<noteq> None
                            \<and> (starts_with k del_prefix_a \<or> starts_with k del_prefix_b))
         in s\<lparr>raw_text_dict := (\<lambda>k. if del_var k then None else raw_text_dict s k),
               var_value_dict := (\<lambda>k. if del_var k then None else var_value_dict s k),
               row_widgets := removeAll row_num (row_widgets s)\<rparr>)
      else s)"

text \<open>
  \<^verbatim>\<open>add_calc_row(row_num)\<close> creates the row's widgets; it touches neither dictionary.
\<close>

definition add_calc_row :: "calc_state \<Rightarrow> nat \<Rightarrow> calc_state" where
  "add_calc_row s row_num =
     (if row_num \<in> set (row_widgets s) then s
      else s\<lparr>row_widgets := row_widgets s @ [row_num]\<rparr>)"

text \<open>
  The handlers of the three counts. \<^verbatim>\<open>refresh_dec_inputs\<close> and \<^verbatim>\<open>refresh_hex_inputs\<close>
  rebuild widgets only, so a change of a column count sets the count and resolves.
\<close>

definition on_row_count_change ::
  "(string \<Rightarrow> py_result) \<Rightarrow> calc_state \<Rightarrow> nat \<Rightarrow> py_exception + calc_state" where
  "on_row_count_change ev s new_count =
     (let old_count = total_rows s;
          s1 = foldl add_calc_row s [old_count + 1..<new_count + 1];
          s2 = foldl remove_calc_row s1 (rev [new_count + 1..<old_count + 1])
      in calc_all_rows ev (s2\<lparr>total_rows := new_count\<rparr>))"

definition on_dec_col_change ::
  "(string \<Rightarrow> py_result) \<Rightarrow> calc_state \<Rightarrow> nat \<Rightarrow> py_exception + calc_state" where
  "on_dec_col_change ev s v = calc_all_rows ev (s\<lparr>dec_col_count := v\<rparr>)"

definition on_hex_col_change ::
  "(string \<Rightarrow> py_result) \<Rightarrow> calc_state \<Rightarrow> nat \<Rightarrow> py_exception + calc_state" where
  "on_hex_col_change ev s v = calc_all_rows ev (s\<lparr>hex_col_count := v\<rparr>)"

section \<open>Notions used in the statements\<close>








subsection \<open>Example inputs\<close>

text \<open>An interpreter that raises on every text outside the arithmetic fragment.\<close>

definition reject_all :: "string \<Rightarrow> py_result" where
  "reject_all s = Inl OtherException"




text \<open>One row with two B cells, \<^verbatim>\<open>B0101 = B0102\<close> and \<^verbatim>\<open>B0102 = 0A\<close>.\<close>

definition grid_two_cols :: calc_state where
  "grid_two_cols = \<lparr>total_rows = 1, dec_col_count = 0, hex_col_count = 2,
     raw_text_dict = [''B0101'' \<mapsto> ''B0102'', ''B0102'' \<mapsto> ''0A''],
     var_value_dict = Map.empty, row_widgets = [1]\<rparr>"

section \<open>Properties of the CRC\<close>

lemma and_FF_take_bit: "(b::int) AND 0xFF = take_bit 8 b"
  by (simp add: take_bit_eq_mask mask_eq_exp_minus_1)

lemma take_bit_uint16: "take_bit 16 (uint (r::16 word)) = uint r"
  using uint_lt2p [of r] by (simp add: take_bit_int_eq_self_iff)

lemma crc_shift_uint: "crc_shift (uint r) = uint (ref_shift r)"
proof -
  have "uint r AND 1 \<noteq> 0 \<longleftrightarrow> bit (uint r) 0"
    by (simp add: and_one_eq bit_0 odd_iff_mod_2_eq_one)
  then have "uint r AND 1 \<noteq> 0 \<longleftrightarrow> bit r 0"
    by (simp add: bit_uint_iff)
  then show ?thesis
    by (simp add: crc_shift_def ref_shift_def unsigned_drop_bit_eq uint_xor take_bit_uint16)
qed

lemma xor_byte_uint:
  "uint r XOR (b AND 0xFF) = uint ((r::16 word) XOR ucast (word_of_int b :: 8 word))"
  by (simp add: uint_xor and_FF_take_bit unsigned_ucast_eq uint_word_of_int_eq)

lemma crc_bits_uint: "crc_bits n (uint r) = uint ((ref_shift ^^ n) r)"
  by (induction n arbitrary: r) (simp_all add: crc_shift_uint funpow_swap1)

lemma crc_bytes_uint:
  "crc_bytes (uint r) data = uint (foldl ref_byte r (map word_of_int data))"
  by (induction data arbitrary: r) (simp_all add: xor_byte_uint crc_bits_uint ref_byte_def)

lemma crc_bytes_ref: "crc_bytes 0xFFFF data = uint (ref_crc16 (map word_of_int data))"
proof -
  have "(0xFFFF::int) = uint (0xFFFF :: 16 word)" by simp
  then show ?thesis
    unfolding ref_crc16_def using crc_bytes_uint [of "0xFFFF" data] by simp
qed

lemma uint16_and_FFFF: "uint (r::16 word) AND 0xFFFF = uint r"
proof -
  have "uint r AND 0xFFFF = take_bit 16 (uint r)"
    by (simp add: take_bit_eq_mask mask_eq_exp_minus_1)
  then show ?thesis by (simp add: take_bit_uint16)
qed

lemma crc16_modbus_register:
  "crc16_modbus data order =
     (let r = uint (ref_crc16 (map word_of_int data))
      in if order = ''little'' then [r mod 256, r div 256] else [r div 256, r mod 256])"
  by (simp add: crc16_modbus_def crc_bytes_ref uint16_and_FFFF Let_def and_FF_take_bit
      take_bit_eq_mod drop_bit_eq_div)

lemma crc16_modbus_empty: "crc16_modbus [] order = [0xFF, 0xFF]"
  by (simp add: crc16_modbus_def)

lemma crc16_modbus_golden: "crc16_modbus [0x01, 0x03, 0x00, 0x00, 0x00, 0x0A] ''little'' = [0xC5, 0xCD]"
  by code_simp

text \<open>
  Claim C1. For every list of integers \<open>data\<close> (each is masked to a byte on entry),
  \<open>crc16_modbus\<close> returns the two bytes of the reference MODBUS register computed over
  the bytes of \<open>data\<close>: low byte first when the order is \<open>little\<close>, high byte first
  otherwise. The empty input gives \<open>FF FF\<close> in either order and the request
  \<open>01 03 00 00 00 0A\<close> gives \<open>C5 CD\<close> low byte first.
\<close>

theorem crc16_modbus_reference:
  "crc16_modbus data order =
     (let r = uint (ref_crc16 (map word_of_int data))
      in if order = ''little'' then [r mod 256, r div 256] else [r div 256, r mod 256])
   \<and> crc16_modbus [] order = [0xFF, 0xFF]
   \<and> crc16_modbus [0x01, 0x03, 0x00, 0x00, 0x00, 0x0A] ''little'' = [0xC5, 0xCD]"
  using crc16_modbus_register crc16_modbus_empty crc16_modbus_golden by blast

theorem crc16_modbus_reference_witness:
  "crc16_modbus [0x01, 0x03, 0x00, 0x00, 0x00, 0x0A] ''big'' =
     [uint (ref_crc16 [0x01, 0x03, 0x00, 0x00, 0x00, 0x0A]) div 256,
      uint (ref_crc16 [0x01, 0x03, 0x00, 0x00, 0x00, 0x0A]) mod 256]
   \<and> crc16_modbus [] ''big'' = [0xFF, 0xFF]"
  using crc16_modbus_reference [of "[0x01, 0x03, 0x00, 0x00, 0x00, 0x0A]" "''big''"]
  by (simp add: Let_def)

section \<open>Evaluation and ranges\<close>

lemmas text_simps = py_strip_def is_space_def py_upper_def upper_char_def py_isdigit_def
  is_digit_def digit_value_def is_hex_digit_def hex_digit_value_def py_int10_def hex_value_def

lemmas eval_simps = py_eval_def arith_eval_def parse_expr_def literal_value_def is_word_char_def
  parse_sum.simps parse_sum_rest.simps parse_term.simps parse_term_rest.simps parse_factor.simps

lemmas formula_simps = parse_b_input_def parse_b_formula_def parse_high_low_hex_def
  replace_vars_def has_operator_def py_int16_def get_var_value_def dict_get_def py_str_def
  fmt_04X_def dec_digits.simps hex_digits.simps

lemma and_FF_mod: "(x::int) AND 0xFF = x mod 256"
  by (simp add: and_FF_take_bit take_bit_eq_mod)

lemma and_FF_range: "0 \<le> (x::int) AND 0xFF" "(x::int) AND 0xFF \<le> 255"
  by (simp_all add: and_FF_mod)


lemma parse_b_formula_range: "0 \<le> parse_b_formula ev t d" "parse_b_formula ev t d \<le> 255"
  by (auto simp: parse_b_formula_def Let_def and_FF_mod
      split: sum.splits py_value.splits py_float.splits)









section \<open>Classification of cell texts\<close>










section \<open>Formulas and byte extraction\<close>

lemma py_round_nearest: "\<bar>of_int (py_round q) - q\<bar> \<le> 1 / 2"
proof -
  define f where "f = \<lfloor>q\<rfloor>"
  define r where "r = q - of_int f"
  have r0: "0 \<le> r" and r1: "r < 1" unfolding r_def f_def by linarith+
  have q: "q = of_int f + r" by (simp add: r_def)
  have "py_round q = (if r < 1 / 2 then f else if 1 / 2 < r then f + 1 else if even f then f else f + 1)"
    by (simp add: py_round_def Let_def f_def r_def)
  then show ?thesis using r0 r1 by (auto simp: q)
qed

lemma parse_b_formula_result:
  "parse_b_formula ev t d =
     (case py_eval ev (replace_vars d (py_upper (hl_sub (\<lambda>sy ex. parse_high_low_hex ev sy ex d) t))) of
        Inr (PInt i) \<Rightarrow> i mod 256
      | Inr (PFloat (Finite q)) \<Rightarrow> py_round q mod 256
      | _ \<Rightarrow> 0)"
  by (simp add: parse_b_formula_def Let_def and_FF_mod
      split: sum.splits py_value.splits py_float.splits)

lemma formula_example:
  assumes "dict_get d ''B0106'' 0 = 10"
  shows "parse_b_formula ev ''B0106+0XFF*2'' d = 8"
  using assms by (simp add: parse_b_formula_def replace_vars_def get_var_value_def py_str_def
      dec_digits.simps text_simps eval_simps)

lemma hex_literal_example: "py_eval ev ''0XFF'' = Inr (PInt 255)"
  by (simp add: text_simps eval_simps)

lemma upt_16: "[0..<16] = [0, 1, 2, 3, 4, 5, 6, 7, 8, 9, 10, 11, 12, 13, 14, 15]"
  by (simp add: upt_rec)

lemma hex_char_value_all:
  "list_all (\<lambda>k. hex_digit_value (''0123456789ABCDEF'' ! k) = Some (int k)) [0..<16]"
  unfolding upt_16 by (simp add: hex_digit_value_def)

lemma hex_char_value: "k < 16 \<Longrightarrow> hex_digit_value (''0123456789ABCDEF'' ! k) = Some (int k)"
  using hex_char_value_all by (simp add: list_all_iff)

lemma hex_digits_small: "n < 16 \<Longrightarrow> hex_digits n = [''0123456789ABCDEF'' ! n]"
  by (subst hex_digits.simps) simp

lemma hex_digits_step:
  "16 \<le> n \<Longrightarrow> hex_digits n = hex_digits (n div 16) @ [''0123456789ABCDEF'' ! (n mod 16)]"
  by (subst hex_digits.simps) simp

lemma fmt_04X_digits:
  assumes "n < 65536"
  shows "fmt_04X (int n) =
     [''0123456789ABCDEF'' ! (n div 4096), ''0123456789ABCDEF'' ! (n div 256 mod 16),
      ''0123456789ABCDEF'' ! (n div 16 mod 16), ''0123456789ABCDEF'' ! (n mod 16)]"
proof -
  have rep: "replicate 3 c = [c, c, c]" "replicate 2 c = [c, c]" for c :: char
    by (simp_all add: numeral_3_eq_3 numeral_2_eq_2)
  consider "n < 16" | "16 \<le> n" "n < 256" | "256 \<le> n" "n < 4096" | "4096 \<le> n"
    by linarith
  then show ?thesis
  proof cases
    case 1
    then show ?thesis by (simp add: fmt_04X_def hex_digits_small rep)
  next
    case 2
    then have "n div 16 < 16" "n div 256 = 0" "n div 4096 = 0" by auto
    with 2 show ?thesis
      by (simp add: fmt_04X_def hex_digits_step hex_digits_small rep)
  next
    case 3
    then have a: "n div 16 < 256" "16 \<le> n div 16" "n div 16 div 16 < 16" "n div 4096 = 0" "16 \<le> n" by auto
    have b: "n div 16 div 16 = n div 256" by (simp add: div_mult2_eq[symmetric])
    from a b show ?thesis
      by (simp add: fmt_04X_def hex_digits_step hex_digits_small)
  next
    case 4
    with assms have a: "16 \<le> n" "16 \<le> n div 16" "16 \<le> n div 16 div 16" "n div 16 div 16 div 16 < 16"
      by auto
    have b: "n div 16 div 16 = n div 256" "n div 16 div 16 div 16 = n div 4096"
      by (simp_all add: div_mult2_eq[symmetric])
    from a b show ?thesis
      by (simp add: fmt_04X_def hex_digits_step [of n] hex_digits_step [of "n div 16"]
          hex_digits_step [of "n div 256"] hex_digits_small)
  qed
qed

lemma py_int16_pair:
  "a < 16 \<Longrightarrow> b < 16 \<Longrightarrow>
   py_int16 [''0123456789ABCDEF'' ! a, ''0123456789ABCDEF'' ! b] = Inr (int (16 * a + b))"
  by (simp add: py_int16_def is_hex_digit_def hex_value_def hex_char_value)

lemma high_byte_of_hex:
  assumes "n < 65536"
  shows "py_int16 (take 2 (fmt_04X (int n))) = Inr (int (n div 256))"
    and "py_int16 (drop 2 (fmt_04X (int n))) = Inr (int (n mod 256))"
proof -
  from assms have 1: "n div 4096 < 16" by auto
  have 2: "n div 256 mod 16 < 16" "n div 16 mod 16 < 16" "n mod 16 < 16" by auto
  have hi: "16 * (n div 4096) + n div 256 mod 16 = n div 256"
    by (simp add: div_mult2_eq [of n 256 16, simplified] mult.commute)
  have lo: "16 * (n div 16 mod 16) + n mod 16 = n mod 256"
    by (simp add: mod_mult2_eq [of n 16 16, simplified] add.commute)
  show "py_int16 (take 2 (fmt_04X (int n))) = Inr (int (n div 256))"
    using py_int16_pair [OF 1 2(1)] by (simp add: fmt_04X_digits [OF assms] hi)
  show "py_int16 (drop 2 (fmt_04X (int n))) = Inr (int (n mod 256))"
    using py_int16_pair [OF 2(2) 2(3)] by (simp add: fmt_04X_digits [OF assms] lo)
qed

lemma and_FFFF_mod: "(x::int) AND 0xFFFF = x mod 65536"
proof -
  have "x AND 0xFFFF = take_bit 16 x"
    by (simp add: take_bit_eq_mask mask_eq_exp_minus_1)
  then show ?thesis by (simp add: take_bit_eq_mod)
qed

lemma extract_bytes:
  assumes ev: "py_eval ev (replace_vars d (py_upper inner)) = Inr r"
    and r: "int_round r = Inr x"
  shows "parse_high_low_hex ev CHR ''#'' inner d = py_str (x mod 65536 div 256)"
    and "parse_high_low_hex ev CHR ''$'' inner d = py_str (x mod 65536 mod 256)"
proof -
  define n where "n = nat (x mod 65536)"
  have n: "n < 65536" and xn: "x mod 65536 = int n" by (simp_all add: n_def)
  have hi: "int (n div 256) = x mod 65536 div 256" by (simp add: xn zdiv_int)
  have lo: "int (n mod 256) = x mod 65536 mod 256" by (simp add: xn zmod_int)
  show "parse_high_low_hex ev CHR ''#'' inner d = py_str (x mod 65536 div 256)"
    by (simp add: parse_high_low_hex_def ev r and_FFFF_mod xn high_byte_of_hex [OF n] Let_def
        zdiv_int)
  show "parse_high_low_hex ev CHR ''$'' inner d = py_str (x mod 65536 mod 256)"
    by (simp add: parse_high_low_hex_def ev r and_FFFF_mod xn high_byte_of_hex [OF n] Let_def
        zmod_int)
qed

lemma extract_example_high: "parse_b_input ev ''#(0X1234)'' d = Inr 18"
  by (simp add: formula_simps text_simps eval_simps)

lemma extract_example_low: "parse_b_input ev ''$(0X1234)'' d = Inr 52"
  by (simp add: formula_simps text_simps eval_simps)

section \<open>One cell, one round\<close>













section \<open>Rounds settle the cells rank by rank\<close>








section \<open>Direct substitution and the loop\<close>












section \<open>Example grids\<close>

lemmas grid_simps = cell_names_def generate_var_name_def fmt_02d_def dec_digits.simps
  upt_rec a_value_def b_cell_def b_loop.simps max_attempts_def update_all_var_values_def
  calc_all_rows_def on_hex_col_change_def on_dec_col_change_def





section \<open>The store after a pass\<close>










lemma remove_calc_row_raw:
  assumes "row_num \<in> set (row_widgets s)"
    and "starts_with k (CHR ''A'' # fmt_02d row_num) \<or> starts_with k (CHR ''B'' # fmt_02d row_num)"
  shows "raw_text_dict (remove_calc_row s row_num) k = None"
  using assms by (auto simp: remove_calc_row_def Let_def)


section \<open>The claims about cells, formulas and the resolution\<close>





text \<open>
  Claim C4. The value of a formula is the value of the text left after the two
  substitutions (the byte extractions, then the cell references by their decimal values):
  an integer result is taken modulo 256, a float is first rounded to the nearest integer
  (\<open>py_round\<close> is at most one half away from its argument) and then taken modulo 256, and
  everything else gives 0. With \<^verbatim>\<open>B0106\<close> resolved to 10, \<^verbatim>\<open>B0106+0XFF*2\<close> is 8, where
  \<^verbatim>\<open>0XFF\<close> is the integer 255.
\<close>

theorem formula_rounded_and_masked:
  "parse_b_formula ev t d =
     (case py_eval ev (replace_vars d
             (py_upper (hl_sub (\<lambda>sy ex. parse_high_low_hex ev sy ex d) t))) of
        Inr (PInt i) \<Rightarrow> i mod 256
      | Inr (PFloat (Finite q)) \<Rightarrow> py_round q mod 256
      | _ \<Rightarrow> 0)
   \<and> \<bar>of_int (py_round x) - x\<bar> \<le> 1 / 2
   \<and> 0 \<le> parse_b_formula ev t d \<and> parse_b_formula ev t d \<le> 255
   \<and> (dict_get d ''B0106'' 0 = 10 \<longrightarrow>
        replace_vars d ''B0106+0XFF*2'' = ''10+0XFF*2''
        \<and> parse_b_formula ev ''B0106+0XFF*2'' d = 8
        \<and> parse_b_input ev ''B0106+0XFF*2'' d = Inr 8)
   \<and> py_eval ev ''0XFF'' = Inr (PInt 255)
   \<and> py_eval ev ''10+0XFF*2'' = Inr (PInt 520)"
proof (intro conjI impI)
  show "parse_b_formula ev t d =
     (case py_eval ev (replace_vars d
             (py_upper (hl_sub (\<lambda>sy ex. parse_high_low_hex ev sy ex d) t))) of
        Inr (PInt i) \<Rightarrow> i mod 256
      | Inr (PFloat (Finite q)) \<Rightarrow> py_round q mod 256
      | _ \<Rightarrow> 0)"
    by (rule parse_b_formula_result)
  show "\<bar>of_int (py_round x) - x\<bar> \<le> 1 / 2" by (rule py_round_nearest)
  show "0 \<le> parse_b_formula ev t d" "parse_b_formula ev t d \<le> 255"
    by (rule parse_b_formula_range)+
  show "py_eval ev ''0XFF'' = Inr (PInt 255)" by (rule hex_literal_example)
  show "py_eval ev ''10+0XFF*2'' = Inr (PInt 520)" by (simp add: text_simps eval_simps)
next
  assume b: "dict_get d ''B0106'' 0 = 10"
  then show "replace_vars d ''B0106+0XFF*2'' = ''10+0XFF*2''"
    by (simp add: replace_vars_def get_var_value_def py_str_def dec_digits.simps text_simps)
  from b show "parse_b_formula ev ''B0106+0XFF*2'' d = 8" by (rule formula_example)
  then show "parse_b_input ev ''B0106+0XFF*2'' d = Inr 8"
    by (simp add: parse_b_input_def has_operator_def text_simps)
qed

theorem formula_rounded_and_masked_witness:
  "dict_get [''B0106'' \<mapsto> 10] ''B0106'' 0 = (10 :: int)
   \<and> parse_b_input reject_all ''B0106+0XFF*2'' [''B0106'' \<mapsto> 10] = Inr 8
   \<and> \<bar>of_int (py_round (5 / 2)) - 5 / 2\<bar> \<le> (1 / 2 :: rat)"
  using formula_rounded_and_masked [of reject_all "[]" "[''B0106'' \<mapsto> 10]" "5 / 2"]
  by (simp add: dict_get_def)

text \<open>
  Claim C5. When the inner expression of \<^verbatim>\<open>#(...)\<close> or \<^verbatim>\<open>$(...)\<close> evaluates to a value
  that is or rounds to the integer \<open>x\<close>, and \<open>v = x mod 65536\<close> is that integer masked
  to 16 bits, then \<^verbatim>\<open>#\<close> is replaced by the decimal text of the high byte \<open>v div 256\<close>,
  read from the first two of the four upper-case hexadecimal digits of \<open>v\<close>, and \<^verbatim>\<open>$\<close>
  by that of the low byte \<open>v mod 256\<close>, read from the last two; both are between 0 and
  255. The formulas \<^verbatim>\<open>#(0X1234)\<close> and \<^verbatim>\<open>$(0X1234)\<close> are 18 and 52.
\<close>

theorem extraction_high_low:
  assumes "py_eval ev (replace_vars d (py_upper inner)) = Inr r" and "int_round r = Inr x"
  shows "parse_high_low_hex ev CHR ''#'' inner d = py_str (x mod 65536 div 256)
    \<and> parse_high_low_hex ev CHR ''$'' inner d = py_str (x mod 65536 mod 256)
    \<and> x AND 0xFFFF = x mod 65536
    \<and> length (fmt_04X (x mod 65536)) = 4
    \<and> py_int16 (take 2 (fmt_04X (x mod 65536))) = Inr (x mod 65536 div 256)
    \<and> py_int16 (drop 2 (fmt_04X (x mod 65536))) = Inr (x mod 65536 mod 256)
    \<and> 0 \<le> x mod 65536 div 256 \<and> x mod 65536 div 256 \<le> 255
    \<and> 0 \<le> x mod 65536 mod 256 \<and> x mod 65536 mod 256 \<le> 255
    \<and> parse_b_input ev ''#(0X1234)'' d = Inr 18
    \<and> parse_b_input ev ''$(0X1234)'' d = Inr 52"
proof -
  define n where "n = nat (x mod 65536)"
  have n: "n < 65536" and xn: "x mod 65536 = int n" by (simp_all add: n_def)
  have hi: "int (n div 256) = x mod 65536 div 256" by (simp add: xn zdiv_int)
  have lo: "int (n mod 256) = x mod 65536 mod 256" by (simp add: xn zmod_int)
  have len: "length (fmt_04X (x mod 65536)) = 4"
    unfolding xn by (simp add: fmt_04X_digits [OF n])
  have range: "0 \<le> x mod 65536 div 256" "x mod 65536 div 256 \<le> 255"
    "0 \<le> x mod 65536 mod 256" "x mod 65536 mod 256 \<le> 255"
    by simp_all
  from extract_bytes [OF assms] and_FFFF_mod [of x] len range
    high_byte_of_hex [OF n, folded xn, unfolded hi lo]
    extract_example_high [of ev d] extract_example_low [of ev d]
  show ?thesis by simp
qed

theorem extraction_high_low_witness:
  "py_eval reject_all (replace_vars Map.empty (py_upper ''0x1234'')) = Inr (PInt 4660)
   \<and> parse_high_low_hex reject_all CHR ''#'' ''0x1234'' Map.empty = ''18''
   \<and> parse_high_low_hex reject_all CHR ''$'' ''0x1234'' Map.empty = ''52''"
proof -
  have e: "py_eval reject_all (replace_vars Map.empty (py_upper ''0x1234'')) = Inr (PInt 4660)"
    by (simp add: replace_vars_def text_simps eval_simps)
  have r: "int_round (PInt 4660) = Inr 4660" by simp
  from extraction_high_low [OF e r] e show ?thesis
    by (simp add: py_str_def dec_digits.simps)
qed

text \<open>
  Claim C6, evaluated at the formula \<^verbatim>\<open>$((1+2)*3)\<close>. The inner expression \<^verbatim>\<open>(1+2)*3\<close> is
  9, whose low byte is 9. The first pass matches only up to the first closing
  parenthesis: it takes \<^verbatim>\<open>(1+2\<close> as the inner text, which does not evaluate, and
  leaves \<^verbatim>\<open>0*3)\<close>, which does not evaluate either; the formula is 0.
\<close>

theorem nested_extraction_not_replaced:
  "hl_sub (\<lambda>sy ex. parse_high_low_hex ev sy ex d) ''$((1+2)*3)'' = ''0*3)''
   \<and> parse_high_low_hex ev CHR ''$'' ''(1+2'' d = ''0''
   \<and> py_eval ev ''(1+2'' = Inl SyntaxError
   \<and> py_eval ev ''0*3)'' = Inl SyntaxError
   \<and> parse_b_input ev ''$((1+2)*3)'' d = Inr 0
   \<and> py_eval ev ''(1+2)*3'' = Inr (PInt 9)
   \<and> parse_high_low_hex ev CHR ''$'' ''(1+2)*3'' d = ''9''"
  by (simp add: formula_simps text_simps eval_simps)

theorem nested_extraction_not_replaced_witness:
  "parse_b_input reject_all ''$((1+2)*3)'' Map.empty = Inr 0
   \<and> parse_high_low_hex reject_all CHR ''$'' ''(1+2)*3'' Map.empty = ''9''"
  using nested_extraction_not_replaced [of reject_all Map.empty] by simp




text \<open>
  Claim C8, evaluated on a grid with one row and two B cells, \<^verbatim>\<open>B0101 = B0102\<close> and
  \<^verbatim>\<open>B0102 = 0A\<close>. After a resolution, \<^verbatim>\<open>hex_col_count\<close> is reduced to 1, so that
  \<^verbatim>\<open>B0102\<close> is no longer a cell of the grid. Its raw text and its value 10 stay in the
  two dictionaries, and the formula of \<^verbatim>\<open>B0101\<close> still resolves to 10.
\<close>

theorem stale_value_after_column_shrink:
  "(case calc_all_rows ev grid_two_cols of
      Inl e \<Rightarrow> None
    | Inr s1 \<Rightarrow>
        (case on_hex_col_change ev s1 1 of
           Inl e \<Rightarrow> None
         | Inr s2 \<Rightarrow> Some (hex_col_count s2, var_value_dict s2 ''B0101'',
                          var_value_dict s2 ''B0102'', raw_text_dict s2 ''B0102'')))
   = Some (1, Some 10, Some 10, Some ''0A'')"
  by (simp add: grid_two_cols_def grid_simps formula_simps text_simps)

theorem stale_value_after_column_shrink_witness:
  "(case calc_all_rows reject_all grid_two_cols of
      Inl e \<Rightarrow> None
    | Inr s1 \<Rightarrow>
        (case on_hex_col_change reject_all s1 1 of
           Inl e \<Rightarrow> None
         | Inr s2 \<Rightarrow> Some (var_value_dict s2 ''B0101'', var_value_dict s2 ''B0102'')))
   = Some (Some 10, Some 10)"
  using stale_value_after_column_shrink [of reject_all]
  by (auto split: sum.splits)






end
